theory Spec2Isabelle
  imports Complex_Main
begin

section \<open>Freelance workflow engine: the milestone, payment and workflow model\<close>

text \<open>
  The program computes with C++ \<^verbatim>\<open>double\<close>. Its arithmetic type is the type parameter
  \<open>'d\<close> of the model: the definitions use only \<open>0\<close>, \<open><\<close>, \<open>\<le>\<close> and \<open>*\<close> on it, exactly
  where the source does, and assume nothing about them. Every theorem names in its sort
  what it needs of the numbers; most need nothing.

  Console, error stream and log file are modelled as one ordered list of events. Numbers
  are kept as numbers in the output (how a stream formats them is not modelled). A
  newline at the head of a string literal is the empty line \<open>Cout []\<close>.

  The source is \<^verbatim>\<open>src/Project.cpp\<close>: the users in lines 15-70, the payment methods
  in 73-127, \<^verbatim>\<open>Milestone\<close> in 130-159, \<^verbatim>\<open>FixedPriceMilestone\<close> in 162-183, the exception
  classes in 186-199, \<^verbatim>\<open>HourlyMilestone\<close> in 202-235, \<^verbatim>\<open>Logger\<close> in 238-265 and
  \<^verbatim>\<open>Project\<close> with \<^verbatim>\<open>executeProjectWorkflow\<close> in 268-326. Pointers that may be null are
  options; a member function that may assign to its object returns the object.
\<close>

subsection \<open>Output events and control signals\<close>

datatype 'd chunk = Str string | Num 'd | Macro string

datatype operation = ProcessPayment | LogPaymentReceipt

text \<open>
  \<open>Cout l\<close>, \<open>Cerr l\<close>: the line \<open>l\<close> written to the stream and ended by a newline.
  \<open>FileAppend f l\<close>: the line \<open>l\<close> appended to the file named \<open>f\<close>.
  \<open>Call op\<close>: the body of the member function \<open>op\<close> is entered.
\<close>

datatype 'd event =
    Cout "'d chunk list"
  | Cerr "'d chunk list"
  | FileAppend string "'d chunk list"
  | Call operation

text \<open>The exceptions the source throws; all four are classes derived from \<^verbatim>\<open>std::exception\<close>.\<close>

datatype thrown =
    InvalidHoursException
  | NullPointerException
  | PaymentFailureException
  | runtime_error string

fun what :: "thrown \<Rightarrow> string" where
  "what InvalidHoursException = ''Invalid hours worked: cannot be negative or zero''"
| "what NullPointerException = ''Null pointer access attempted''"
| "what PaymentFailureException = ''Payment processing failed: amount is zero or negative''"
| "what (runtime_error msg) = msg"

text \<open>Whether a handler \<^verbatim>\<open>catch (const exception&)\<close> matches the thrown object.\<close>

fun is_std_exception :: "thrown \<Rightarrow> bool" where
  "is_std_exception InvalidHoursException = True"
| "is_std_exception NullPointerException = True"
| "is_std_exception PaymentFailureException = True"
| "is_std_exception (runtime_error msg) = True"

text \<open>A member call through a null pointer has no defined behaviour; the model stops there.\<close>

datatype null_dereference = Null_paymentMethod | Null_logger

datatype signal = Normal | Throw thrown | Undefined null_dereference

text \<open>
  What a member function call leaves behind: the events it produced, how it ended, the
  object afterwards and the returned value.
\<close>

record ('d, 's, 'a) call =
  events :: "'d event list"
  signal :: signal
  self :: 's
  retval :: 'a

definition apostrophe :: string where
  "apostrophe = [CHR 0x27]"

subsection \<open>Users\<close>

datatype 'd User =
    Client string string string
  | Freelancer string string string 'd

fun getName :: "'d User \<Rightarrow> string" where
  "getName (Client userName userEmail compName) = userName"
| "getName (Freelancer userName userEmail skills rate) = userName"

fun getEmail :: "'d User \<Rightarrow> string" where
  "getEmail (Client userName userEmail compName) = userEmail"
| "getEmail (Freelancer userName userEmail skills rate) = userEmail"

fun displayInfo :: "'d User \<Rightarrow> 'd event list" where
  "displayInfo (Client userName userEmail compName) =
     [Cout [Str ''Client: '', Str userName, Str '' ('', Str compName, Str '') - '',
            Str userEmail]]"
| "displayInfo (Freelancer userName userEmail skills rate) =
     [Cout [Str ''Freelancer: '', Str userName, Str '' - Skills: '', Str skills,
            Str '' - Rate: $'', Num rate, Str ''/hr - '', Str userEmail]]"

subsection \<open>Payment methods\<close>

datatype 'd Payment = Escrow 'd | Direct 'd


fun getPaymentType :: "'d Payment \<Rightarrow> string" where
  "getPaymentType (Escrow amt) = ''Escrow''"
| "getPaymentType (Direct amt) = ''Direct''"

fun processPayment :: "'d Payment \<Rightarrow> ('d, 'd Payment, unit) call" where
  "processPayment (Escrow amt) =
     \<lparr>events = [Call ProcessPayment,
                Cout [Str ''Processing escrow payment of $'', Num amt],
                Cout [Str ''Funds held in escrow until milestone completion...'']],
      signal = Normal, self = Escrow amt, retval = ()\<rparr>"
| "processPayment (Direct amt) =
     \<lparr>events = [Call ProcessPayment,
                Cout [Str ''Processing direct payment of $'', Num amt],
                Cout [Str ''Payment transferred immediately...'']],
      signal = Normal, self = Direct amt, retval = ()\<rparr>"

subsection \<open>Milestones\<close>

record 'd Milestone =
  title :: string
  description :: string
  isCompleted :: bool
  paymentMethod :: "'d Payment option"

record 'd FixedPriceMilestone = "'d Milestone" +
  fixedAmount :: 'd

record 'd HourlyMilestone = "'d Milestone" +
  hoursWorked :: 'd
  hourlyRate :: 'd

text \<open>The constructors.\<close>

definition new_FixedPriceMilestone ::
  "string \<Rightarrow> string \<Rightarrow> 'd Payment option \<Rightarrow> 'd \<Rightarrow> 'd FixedPriceMilestone" where
  "new_FixedPriceMilestone ttl desc payment amount =
     \<lparr>title = ttl, description = desc, isCompleted = False, paymentMethod = payment,
      fixedAmount = amount\<rparr>"

definition new_HourlyMilestone ::
  "string \<Rightarrow> string \<Rightarrow> 'd Payment option \<Rightarrow> 'd \<Rightarrow> ('d::zero) HourlyMilestone" where
  "new_HourlyMilestone ttl desc payment rate =
     \<lparr>title = ttl, description = desc, isCompleted = False, paymentMethod = payment,
      hoursWorked = 0, hourlyRate = rate\<rparr>"

definition getTitle :: "('d, 'z) Milestone_scheme \<Rightarrow> string" where
  "getTitle m = title m"

definition getIsCompleted :: "('d, 'z) Milestone_scheme \<Rightarrow> bool" where
  "getIsCompleted m = isCompleted m"

text \<open>
  \<^verbatim>\<open>displayMilestone\<close> calls \<^verbatim>\<open>paymentMethod->getPaymentType()\<close>; with a null payment
  method the call is undefined.
\<close>

definition displayMilestone ::
  "('d, 'z) Milestone_scheme \<Rightarrow> ('d, ('d, 'z) Milestone_scheme, unit) call" where
  "displayMilestone m =
     (let out = [Cout [Str ''Milestone: '', Str (title m)],
                 Cout [Str ''Description: '', Str (description m)],
                 Cout [Str ''Status: '',
                       Str (if isCompleted m then ''Completed'' else ''Pending'')]]
      in case paymentMethod m of
           None \<Rightarrow> \<lparr>events = out, signal = Undefined Null_paymentMethod, self = m,
                     retval = ()\<rparr>
         | Some pm \<Rightarrow>
             \<lparr>events = out @ [Cout [Str ''Payment Method: '', Str (getPaymentType pm)]],
              signal = Normal, self = m, retval = ()\<rparr>)"

definition FixedPriceMilestone_calculatePayment ::
  "('d::zero) FixedPriceMilestone \<Rightarrow> ('d, 'd FixedPriceMilestone, 'd) call" where
  "FixedPriceMilestone_calculatePayment m =
     \<lparr>events = [], signal = Normal, self = m,
      retval = (if isCompleted m then fixedAmount m else 0)\<rparr>"

definition FixedPriceMilestone_complete ::
  "('d::zero) FixedPriceMilestone \<Rightarrow> ('d, 'd FixedPriceMilestone, unit) call" where
  "FixedPriceMilestone_complete m =
     (let m1 = m\<lparr>isCompleted := True\<rparr>;
          pay = FixedPriceMilestone_calculatePayment m1
      in \<lparr>events =
            [Cout [Str ''Fixed-price milestone '', Str apostrophe, Str (title m1),
                   Str apostrophe, Str '' completed!''],
             Cout [Str ''Payment amount: $'', Num (retval pay)]],
          signal = Normal, self = self pay, retval = ()\<rparr>)"

definition HourlyMilestone_calculatePayment ::
  "('d::{zero,times}) HourlyMilestone \<Rightarrow> ('d, 'd HourlyMilestone, 'd) call" where
  "HourlyMilestone_calculatePayment m =
     \<lparr>events = [], signal = Normal, self = m,
      retval = (if isCompleted m then hoursWorked m * hourlyRate m else 0)\<rparr>"

definition HourlyMilestone_complete ::
  "('d::{zero,ord,times}) HourlyMilestone \<Rightarrow> ('d, 'd HourlyMilestone, unit) call" where
  "HourlyMilestone_complete m =
     (if hoursWorked m \<le> 0 then
        \<lparr>events = [], signal = Throw InvalidHoursException, self = m, retval = ()\<rparr>
      else
        let m1 = m\<lparr>isCompleted := True\<rparr>;
            pay = HourlyMilestone_calculatePayment m1
        in \<lparr>events =
              [Cout [Str ''Hourly milestone '', Str apostrophe, Str (title m1),
                     Str apostrophe, Str '' completed!''],
               Cout [Str ''Hours worked: '', Num (hoursWorked m1), Str '' at $'',
                     Num (hourlyRate m1), Str ''/hr''],
               Cout [Str ''Payment amount: $'', Num (retval pay)]],
            signal = Normal, self = self pay, retval = ()\<rparr>)"

definition setHoursWorked ::
  "'d \<Rightarrow> ('d::{zero,ord}) HourlyMilestone \<Rightarrow> ('d, 'd HourlyMilestone, unit) call" where
  "setHoursWorked hours m =
     (if hours < 0 then
        \<lparr>events = [], signal = Throw InvalidHoursException, self = m, retval = ()\<rparr>
      else
        \<lparr>events = [], signal = Normal, self = m\<lparr>hoursWorked := hours\<rparr>, retval = ()\<rparr>)"

text \<open>
  A \<^verbatim>\<open>Milestone*\<close> points to an object of one of the two derived classes; the virtual
  member functions dispatch on it.
\<close>

datatype 'd MilestoneObj =
    Fixed "'d FixedPriceMilestone"
  | Hourly "'d HourlyMilestone"

fun calculatePayment ::
  "('d::{zero,times}) MilestoneObj \<Rightarrow> ('d, 'd MilestoneObj, 'd) call" where
  "calculatePayment (Fixed m) =
     (let c = FixedPriceMilestone_calculatePayment m
      in \<lparr>events = events c, signal = signal c, self = Fixed (self c), retval = retval c\<rparr>)"
| "calculatePayment (Hourly m) =
     (let c = HourlyMilestone_calculatePayment m
      in \<lparr>events = events c, signal = signal c, self = Hourly (self c), retval = retval c\<rparr>)"

fun complete ::
  "('d::{zero,ord,times}) MilestoneObj \<Rightarrow> ('d, 'd MilestoneObj, unit) call" where
  "complete (Fixed m) =
     (let c = FixedPriceMilestone_complete m
      in \<lparr>events = events c, signal = signal c, self = Fixed (self c), retval = ()\<rparr>)"
| "complete (Hourly m) =
     (let c = HourlyMilestone_complete m
      in \<lparr>events = events c, signal = signal c, self = Hourly (self c), retval = ()\<rparr>)"

fun displayMilestoneObj :: "'d MilestoneObj \<Rightarrow> ('d, 'd MilestoneObj, unit) call" where
  "displayMilestoneObj (Fixed m) =
     (let c = displayMilestone m
      in \<lparr>events = events c, signal = signal c, self = Fixed (self c), retval = ()\<rparr>)"
| "displayMilestoneObj (Hourly m) =
     (let c = displayMilestone m
      in \<lparr>events = events c, signal = signal c, self = Hourly (self c), retval = ()\<rparr>)"

fun getTitleObj :: "'d MilestoneObj \<Rightarrow> string" where
  "getTitleObj (Fixed m) = getTitle m"
| "getTitleObj (Hourly m) = getTitle m"

fun getIsCompletedObj :: "'d MilestoneObj \<Rightarrow> bool" where
  "getIsCompletedObj (Fixed m) = getIsCompleted m"
| "getIsCompletedObj (Hourly m) = getIsCompleted m"

fun paymentMethodObj :: "'d MilestoneObj \<Rightarrow> 'd Payment option" where
  "paymentMethodObj (Fixed m) = paymentMethod m"
| "paymentMethodObj (Hourly m) = paymentMethod m"

fun set_paymentMethodObj :: "'d Payment option \<Rightarrow> 'd MilestoneObj \<Rightarrow> 'd MilestoneObj" where
  "set_paymentMethodObj pm (Fixed m) = Fixed (m\<lparr>paymentMethod := pm\<rparr>)"
| "set_paymentMethodObj pm (Hourly m) = Hourly (m\<lparr>paymentMethod := pm\<rparr>)"

subsection \<open>Logger\<close>

record Logger =
  logFileName :: string

text \<open>
  \<open>can_open f\<close> says whether the file named \<open>f\<close> can be opened for appending; it is the
  part of the file system the logger depends on. The timestamp is the pair of compiler
  macros of the source.
\<close>

definition logPaymentReceipt ::
  "(string \<Rightarrow> bool) \<Rightarrow> string \<Rightarrow> 'd \<Rightarrow> string \<Rightarrow> Logger \<Rightarrow> ('d, Logger, unit) call" where
  "logPaymentReceipt can_open milestoneTitle amount paymentType lg =
     (if \<not> can_open (logFileName lg) then
        \<lparr>events = [Call LogPaymentReceipt],
         signal = Throw (runtime_error ''Unable to open log file''), self = lg, retval = ()\<rparr>
      else
        \<lparr>events =
           [Call LogPaymentReceipt,
            FileAppend (logFileName lg) [Str ''=== PAYMENT RECEIPT ===''],
            FileAppend (logFileName lg) [Str ''Milestone: '', Str milestoneTitle],
            FileAppend (logFileName lg) [Str ''Amount: $'', Num amount],
            FileAppend (logFileName lg) [Str ''Payment Type: '', Str paymentType],
            FileAppend (logFileName lg)
              [Str ''Timestamp: '', Macro ''__DATE__'', Str '' '', Macro ''__TIME__''],
            FileAppend (logFileName lg) [Str ''========================''],
            FileAppend (logFileName lg) [],
            Cout [Str ''Payment receipt logged to file: '', Str (logFileName lg)]],
         signal = Normal, self = lg, retval = ()\<rparr>)"

subsection \<open>Project: the workflow\<close>

record 'd Project =
  projectName :: string
  client :: "'d User option"
  freelancer :: "'d User option"
  milestone :: "'d MilestoneObj option"
  logger :: "Logger option"

text \<open>The body of the \<^verbatim>\<open>try\<close> block of \<^verbatim>\<open>executeProjectWorkflow\<close>, statement by statement.\<close>

definition workflow_try ::
  "(string \<Rightarrow> bool) \<Rightarrow> ('d::{zero,ord,times}) Project \<Rightarrow> ('d, 'd Project, unit) call" where
  "workflow_try can_open p =
     (case (client p, freelancer p, milestone p) of
        (Some c, Some f, Some ms) \<Rightarrow>
          (let out1 =
                 [Cout [], Cout [Str ''=== PROJECT WORKFLOW START ===''],
                  Cout [Str ''Project: '', Str (projectName p)], Cout [],
                  Cout [Str ''Participants:'']]
                 @ displayInfo c @ displayInfo f
                 @ [Cout [], Cout [Str ''Milestone Details:'']];
               dm = displayMilestoneObj ms
           in if signal dm \<noteq> Normal then
                \<lparr>events = out1 @ events dm, signal = signal dm,
                 self = p\<lparr>milestone := Some (self dm)\<rparr>, retval = ()\<rparr>
              else
                let out2 = out1 @ events dm @ [Cout []];
                    cm = complete (self dm)
                in if signal cm \<noteq> Normal then
                     \<lparr>events = out2 @ events cm, signal = signal cm,
                      self = p\<lparr>milestone := Some (self cm)\<rparr>, retval = ()\<rparr>
                   else
                     let out3 = out2 @ events cm;
                         cp = calculatePayment (self cm);
                         paymentAmount = retval cp;
                         p1 = p\<lparr>milestone := Some (self cp)\<rparr>
                     in if paymentAmount \<le> 0 then
                          \<lparr>events = out3 @ events cp, signal = Throw PaymentFailureException,
                           self = p1, retval = ()\<rparr>
                        else
                          (case paymentMethodObj (self cp) of
                             None \<Rightarrow>
                               \<lparr>events = out3 @ events cp,
                                signal = Undefined Null_paymentMethod, self = p1,
                                retval = ()\<rparr>
                           | Some pm \<Rightarrow>
                               let pp = processPayment pm;
                                   out4 = out3 @ events cp @ events pp;
                                   ms1 = set_paymentMethodObj (Some (self pp)) (self cp);
                                   p2 = p\<lparr>milestone := Some ms1\<rparr>
                               in (case logger p of
                                     None \<Rightarrow>
                                       \<lparr>events = out4, signal = Undefined Null_logger,
                                        self = p2, retval = ()\<rparr>
                                   | Some lg \<Rightarrow>
                                       let lp = logPaymentReceipt can_open (getTitleObj ms1)
                                                  paymentAmount (getPaymentType (self pp)) lg;
                                           p3 = p2\<lparr>logger := Some (self lp)\<rparr>
                                       in if signal lp \<noteq> Normal then
                                            \<lparr>events = out4 @ events lp, signal = signal lp,
                                             self = p3, retval = ()\<rparr>
                                          else
                                            \<lparr>events = out4 @ events lp
                                               @ [Cout [],
                                                  Cout [Str ''=== PROJECT WORKFLOW COMPLETED SUCCESSFULLY ==='']],
                                             signal = Normal, self = p3, retval = ()\<rparr>)))
      | _ \<Rightarrow>
          \<lparr>events = [], signal = Throw NullPointerException, self = p, retval = ()\<rparr>)"

text \<open>
  The \<^verbatim>\<open>try\<close> block with its single handler \<^verbatim>\<open>catch (const exception& e)\<close>, which
  writes one line to \<^verbatim>\<open>cerr\<close> and returns.
\<close>

definition executeProjectWorkflow ::
  "(string \<Rightarrow> bool) \<Rightarrow> ('d::{zero,ord,times}) Project \<Rightarrow> ('d, 'd Project, unit) call" where
  "executeProjectWorkflow can_open p =
     (let body = workflow_try can_open p
      in case signal body of
           Throw e \<Rightarrow>
             if is_std_exception e then
               \<lparr>events = events body @ [Cerr [Str ''Error during execution: '', Str (what e)]],
                signal = Normal, self = self body, retval = ()\<rparr>
             else body
         | _ \<Rightarrow> body)"

subsection \<open>Observations on a run\<close>

text \<open>The lines a run appended to the file \<open>f\<close>, and the lines it wrote to \<^verbatim>\<open>cerr\<close>.\<close>

fun file_lines :: "string \<Rightarrow> 'd event list \<Rightarrow> 'd chunk list list" where
  "file_lines f [] = []"
| "file_lines f (FileAppend g l # es) = (if g = f then l # file_lines f es else file_lines f es)"
| "file_lines f (e # es) = file_lines f es"

fun cerr_lines :: "'d event list \<Rightarrow> 'd chunk list list" where
  "cerr_lines [] = []"
| "cerr_lines (Cerr l # es) = l # cerr_lines es"
| "cerr_lines (e # es) = cerr_lines es"

text \<open>
  The run gets as far as paying: client, freelancer and milestone are present, the
  milestone has a payment method, completion succeeds and the amount is not \<open>\<le> 0\<close>.
\<close>

definition reaches_payment :: "('d::{zero,ord,times}) Project \<Rightarrow> bool" where
  "reaches_payment p =
     (case (client p, freelancer p, milestone p) of
        (Some c, Some f, Some ms) \<Rightarrow>
          paymentMethodObj ms \<noteq> None \<and> signal (complete ms) = Normal \<and>
          \<not> retval (calculatePayment (self (complete ms))) \<le> 0
      | _ \<Rightarrow> False)"

text \<open>The receipt block of the log file.\<close>

definition receipt :: "string \<Rightarrow> 'd \<Rightarrow> string \<Rightarrow> 'd chunk list list" where
  "receipt ttl amt ptype =
     [[Str ''=== PAYMENT RECEIPT ===''],
      [Str ''Milestone: '', Str ttl],
      [Str ''Amount: $'', Num amt],
      [Str ''Payment Type: '', Str ptype],
      [Str ''Timestamp: '', Macro ''__DATE__'', Str '' '', Macro ''__TIME__''],
      [Str ''========================''],
      []]"



subsection \<open>Concrete runs\<close>

text \<open>
  The projects of the demo mode of the source (\<^verbatim>\<open>runHardcodedDemos\<close>), with the amount,
  the hours, the payment and the logger left open, and two file systems. The numbers used
  (\<open>0\<close>, \<open>7\<close>, \<open>8\<close>, \<open>10\<close>, \<open>50\<close>, \<open>75\<close>, \<open>500\<close>, \<open>2500\<close>, \<open>-5\<close>) are doubles, and so is the one
  product taken, \<open>10 * 50\<close>; they are written as reals.
\<close>

definition every_file_opens :: "string \<Rightarrow> bool" where
  "every_file_opens f = True"

definition no_file_opens :: "string \<Rightarrow> bool" where
  "no_file_opens f = False"

definition demo_logger :: Logger where
  "demo_logger = \<lparr>logFileName = ''payment_receipts.txt''\<rparr>"

definition fixed_project :: "real \<Rightarrow> Logger option \<Rightarrow> real Project" where
  "fixed_project a lg =
     \<lparr>projectName = ''E-Commerce Website'',
      client = Some (Client ''John Smith'' ''john@company.com'' ''TechCorp''),
      freelancer =
        Some (Freelancer ''Alice Johnson'' ''alice@freelance.com'' ''C++ Development'' 75),
      milestone =
        Some (Fixed (new_FixedPriceMilestone ''Website'' ''Full stack'' (Some (Escrow a)) a)),
      logger = lg\<rparr>"

definition hourly_project :: "real \<Rightarrow> real Payment \<Rightarrow> real Project" where
  "hourly_project h pay =
     \<lparr>projectName = ''Test Project'',
      client = Some (Client ''Test Client'' ''test@test.com'' ''TestCo''),
      freelancer = Some (Freelancer ''Test Freelancer'' ''test@free.com'' ''Testing'' 50),
      milestone =
        Some (Hourly (self (setHoursWorked h
          (new_HourlyMilestone ''Test Milestone'' ''Testing exceptions'' (Some pay) 50)))),
      logger = Some demo_logger\<rparr>"

section \<open>Properties\<close>

subsection \<open>Facts about the parts\<close>


lemma cerr_lines_append: "cerr_lines (xs @ ys) = cerr_lines xs @ cerr_lines ys"
  by (induction xs rule: cerr_lines.induct) simp_all

lemmas milestone_defs =
  FixedPriceMilestone_complete_def HourlyMilestone_complete_def
  FixedPriceMilestone_calculatePayment_def HourlyMilestone_calculatePayment_def

lemma displayInfo_quiet:
  "Call op \<notin> set (displayInfo u)" "file_lines g (displayInfo u) = []"
  "cerr_lines (displayInfo u) = []"
  by (cases u; simp)+

lemma displayMilestoneObj_self: "self (displayMilestoneObj ms) = ms"
  by (cases ms) (simp_all add: displayMilestone_def Let_def split: option.splits)

lemma displayMilestoneObj_quiet:
  "Call op \<notin> set (events (displayMilestoneObj ms))"
  "file_lines g (events (displayMilestoneObj ms)) = []"
  "cerr_lines (events (displayMilestoneObj ms)) = []"
  by (cases ms; simp add: displayMilestone_def Let_def split: option.splits)+

lemma displayMilestoneObj_signal:
  "signal (displayMilestoneObj ms) =
     (case paymentMethodObj ms of None \<Rightarrow> Undefined Null_paymentMethod | Some pm \<Rightarrow> Normal)"
  by (cases ms) (simp_all add: displayMilestone_def Let_def split: option.splits)

lemma calculatePayment_pure:
  "self (calculatePayment ms) = ms" "events (calculatePayment ms) = []"
  "signal (calculatePayment ms) = Normal"
  by (cases ms; simp add: milestone_defs)+

lemma complete_quiet:
  "Call op \<notin> set (events (complete ms))"
  "file_lines g (events (complete ms)) = []"
  "cerr_lines (events (complete ms)) = []"
  by (cases ms; simp add: milestone_defs Let_def)+

lemma complete_base:
  "paymentMethodObj (self (complete ms)) = paymentMethodObj ms"
  "getTitleObj (self (complete ms)) = getTitleObj ms"
  by (cases ms; simp add: milestone_defs Let_def getTitle_def)+

lemma complete_signal:
  "signal (complete ms) = Normal \<or> signal (complete ms) = Throw InvalidHoursException"
  by (cases ms) (simp_all add: milestone_defs Let_def)

lemma processPayment_props:
  "self (processPayment pm) = pm" "signal (processPayment pm) = Normal"
  "Call LogPaymentReceipt \<notin> set (events (processPayment pm))"
  "Call ProcessPayment \<in> set (events (processPayment pm))"
  "file_lines g (events (processPayment pm)) = []"
  "cerr_lines (events (processPayment pm)) = []"
  by (cases pm; simp)+


subsection \<open>Facts about the workflow\<close>

lemma workflow_try_absent:
  "client p = None \<or> freelancer p = None \<or> milestone p = None \<Longrightarrow>
   workflow_try can_open p =
     \<lparr>events = [], signal = Throw NullPointerException, self = p, retval = ()\<rparr>"
  by (auto simp: workflow_try_def split: option.splits)

lemma workflow_try_signal:
  assumes "client p = Some c" "freelancer p = Some f" "milestone p = Some ms"
  shows "signal (workflow_try can_open p) =
    (if paymentMethodObj ms = None then Undefined Null_paymentMethod
     else if signal (complete ms) \<noteq> Normal then signal (complete ms)
     else if retval (calculatePayment (self (complete ms))) \<le> 0
       then Throw PaymentFailureException
     else case logger p of
            None \<Rightarrow> Undefined Null_logger
          | Some lg \<Rightarrow> if can_open (logFileName lg) then Normal
                       else Throw (runtime_error ''Unable to open log file''))"
  using assms
  by (simp add: workflow_try_def Let_def displayMilestoneObj_self displayMilestoneObj_signal
      calculatePayment_pure complete_base processPayment_props logPaymentReceipt_def
      split: option.splits)

lemma workflow_try_cerr: "cerr_lines (events (workflow_try can_open p)) = []"
  by (simp add: workflow_try_def Let_def cerr_lines_append displayInfo_quiet
      displayMilestoneObj_quiet complete_quiet calculatePayment_pure processPayment_props
      logPaymentReceipt_def split: option.splits)

lemma workflow_try_processPayment:
  "Call ProcessPayment \<in> set (events (workflow_try can_open p)) = reaches_payment p"
  by (simp add: workflow_try_def reaches_payment_def Let_def displayInfo_quiet
      displayMilestoneObj_self displayMilestoneObj_signal
      displayMilestoneObj_quiet complete_quiet complete_base calculatePayment_pure
      processPayment_props logPaymentReceipt_def split: option.splits)

lemma workflow_try_logPaymentReceipt:
  "Call LogPaymentReceipt \<in> set (events (workflow_try can_open p)) =
     (reaches_payment p \<and> logger p \<noteq> None)"
  by (simp add: workflow_try_def reaches_payment_def Let_def displayInfo_quiet
      displayMilestoneObj_self displayMilestoneObj_signal
      displayMilestoneObj_quiet complete_quiet complete_base calculatePayment_pure
      processPayment_props logPaymentReceipt_def split: option.splits)


lemma executeProjectWorkflow_events:
  "events (executeProjectWorkflow can_open p) =
     events (workflow_try can_open p) @
     (case signal (workflow_try can_open p) of
        Throw e \<Rightarrow> [Cerr [Str ''Error during execution: '', Str (what e)]]
      | _ \<Rightarrow> [])"
  by (cases "signal (workflow_try can_open p)")
     (simp_all add: executeProjectWorkflow_def Let_def, metis is_std_exception.simps thrown.exhaust)

lemma not_reaches_payment:
  assumes "client p = None \<or> freelancer p = None \<or> milestone p = None \<or>
    (\<exists>ms. milestone p = Some ms \<and> retval (calculatePayment (self (complete ms))) \<le> 0)"
  shows "\<not> reaches_payment p"
  using assms by (auto simp: reaches_payment_def split: option.splits)

lemma executeProjectWorkflow_calls:
  "Call op \<in> set (events (executeProjectWorkflow can_open p)) =
   (Call op \<in> set (events (workflow_try can_open p)))"
  by (simp add: executeProjectWorkflow_events split: signal.splits)

lemmas demo_defs = every_file_opens_def no_file_opens_def demo_logger_def fixed_project_def
  hourly_project_def new_FixedPriceMilestone_def new_HourlyMilestone_def setHoursWorked_def

lemmas run_defs = executeProjectWorkflow_def workflow_try_def displayMilestone_def
  milestone_defs logPaymentReceipt_def getTitle_def apostrophe_def Let_def

subsection \<open>Milestones\<close>

text \<open>
  What \<^verbatim>\<open>HourlyMilestone::complete\<close> does in each case, for any meaning of \<open>\<le>\<close> (also one
  with values that compare false to everything, as a NaN does).
\<close>

lemma HourlyMilestone_complete_cases:
  fixes m :: "('d::{zero,ord,times}) HourlyMilestone"
  shows "hoursWorked m \<le> 0 \<Longrightarrow>
           HourlyMilestone_complete m =
             \<lparr>events = [], signal = Throw InvalidHoursException, self = m, retval = ()\<rparr>"
    and "\<not> hoursWorked m \<le> 0 \<Longrightarrow>
           signal (HourlyMilestone_complete m) = Normal \<and>
           self (HourlyMilestone_complete m) = m\<lparr>isCompleted := True\<rparr>"
  by (simp_all add: milestone_defs Let_def)

text \<open>
  C3. For every hourly milestone, \<^verbatim>\<open>complete()\<close> fails with InvalidHoursException if and
  only if \<open>hoursWorked \<le> 0\<close> at the call. When it fails the milestone is left as it was, so
  a pending milestone stays pending (\<open>isCompleted\<close> stays false); when \<open>hoursWorked > 0\<close> the
  call succeeds and the milestone is completed. A milestone as constructed (hours never
  set, so \<open>0\<close>) fails. The numbers are any type whose \<open>\<le>\<close> is a preorder.
\<close>

theorem HourlyMilestone_complete_fails_iff_no_hours:
  fixes m :: "('d::{zero,preorder,times}) HourlyMilestone"
  shows "(signal (HourlyMilestone_complete m) = Throw InvalidHoursException
            \<longleftrightarrow> hoursWorked m \<le> 0)
       \<and> (hoursWorked m \<le> 0 \<longrightarrow> self (HourlyMilestone_complete m) = m)
       \<and> (hoursWorked m \<le> 0 \<and> \<not> isCompleted m
            \<longrightarrow> \<not> isCompleted (self (HourlyMilestone_complete m)))
       \<and> (0 < hoursWorked m
            \<longrightarrow> signal (HourlyMilestone_complete m) = Normal
              \<and> isCompleted (self (HourlyMilestone_complete m)))
       \<and> (\<not> hoursWorked m \<le> 0
            \<longrightarrow> signal (HourlyMilestone_complete m) = Normal
              \<and> isCompleted (self (HourlyMilestone_complete m)))
       \<and> signal (HourlyMilestone_complete (new_HourlyMilestone ttl desc pay rate :: 'd HourlyMilestone))
            = Throw InvalidHoursException"
proof -
  have pos: "0 < hoursWorked m \<longrightarrow> \<not> hoursWorked m \<le> 0"
    by (simp add: less_le_not_le)
  have zero: "hoursWorked (new_HourlyMilestone ttl desc pay rate :: 'd HourlyMilestone) \<le> 0"
    by (simp add: new_HourlyMilestone_def)
  show ?thesis
    using pos HourlyMilestone_complete_cases(1) [OF zero]
    by (cases "hoursWorked m \<le> 0") (simp_all add: HourlyMilestone_complete_cases)
qed

theorem HourlyMilestone_complete_fails_iff_no_hours_witness:
  "signal (HourlyMilestone_complete
     (new_HourlyMilestone ''Test Milestone'' ''Testing exceptions'' (Some (Direct 0)) (50::real)))
     = Throw InvalidHoursException
   \<and> \<not> isCompleted (self (HourlyMilestone_complete
     (new_HourlyMilestone ''Test Milestone'' ''Testing exceptions'' (Some (Direct 0)) (50::real))))
   \<and> (0::real) < 10
   \<and> signal (HourlyMilestone_complete
     ((new_HourlyMilestone ''Test Milestone'' ''Testing exceptions'' (Some (Direct 0)) (50::real))
        \<lparr>hoursWorked := 10\<rparr>)) = Normal
   \<and> isCompleted (self (HourlyMilestone_complete
     ((new_HourlyMilestone ''Test Milestone'' ''Testing exceptions'' (Some (Direct 0)) (50::real))
        \<lparr>hoursWorked := 10\<rparr>)))"
  using HourlyMilestone_complete_fails_iff_no_hours
      [of "new_HourlyMilestone ''Test Milestone'' ''Testing exceptions'' (Some (Direct 0)) (50::real)"]
    HourlyMilestone_complete_fails_iff_no_hours
      [of "(new_HourlyMilestone ''Test Milestone'' ''Testing exceptions'' (Some (Direct 0)) (50::real))
             \<lparr>hoursWorked := 10\<rparr>"]
  by (simp add: new_HourlyMilestone_def)

text \<open>
  C4. For every hourly milestone and every \<open>h\<close>, \<^verbatim>\<open>setHoursWorked(h)\<close> fails with
  InvalidHoursException exactly when \<open>h < 0\<close>, and then leaves the milestone, with its stored
  hours, unchanged; for \<open>h \<ge> 0\<close> (indeed for every \<open>h\<close> that is not \<open>< 0\<close>) it succeeds and
  stores \<open>h\<close>; in particular \<^verbatim>\<open>setHoursWorked(0)\<close> succeeds. The numbers are any type whose
  \<open>\<le>\<close> is a preorder.
\<close>

theorem setHoursWorked_fails_iff_negative:
  fixes m :: "('d::{zero,preorder}) HourlyMilestone"
  shows "(signal (setHoursWorked h m) = Throw InvalidHoursException \<longleftrightarrow> h < 0)
       \<and> (h < 0 \<longrightarrow> self (setHoursWorked h m) = m)
       \<and> (0 \<le> h \<longrightarrow> signal (setHoursWorked h m) = Normal
                     \<and> self (setHoursWorked h m) = m\<lparr>hoursWorked := h\<rparr>)
       \<and> (\<not> h < 0 \<longrightarrow> signal (setHoursWorked h m) = Normal
                     \<and> self (setHoursWorked h m) = m\<lparr>hoursWorked := h\<rparr>)
       \<and> signal (setHoursWorked 0 m) = Normal
       \<and> hoursWorked (self (setHoursWorked 0 m)) = 0"
proof -
  have "\<not> h < 0" if "0 \<le> h"
    using that by (simp add: less_le_not_le)
  then show ?thesis
    by (simp add: setHoursWorked_def)
qed

theorem setHoursWorked_fails_iff_negative_witness:
  "(- 5 :: real) < 0
   \<and> signal (setHoursWorked (- 5)
        (new_HourlyMilestone ''Test Milestone'' ''Testing exceptions'' (Some (Direct 0)) (50::real)))
       = Throw InvalidHoursException
   \<and> hoursWorked (self (setHoursWorked (- 5)
        (new_HourlyMilestone ''Test Milestone'' ''Testing exceptions'' (Some (Direct 0)) (50::real))))
       = 0
   \<and> (0::real) \<le> 8
   \<and> signal (setHoursWorked 8
        (new_HourlyMilestone ''Test Milestone'' ''Testing exceptions'' (Some (Direct 0)) (50::real)))
       = Normal
   \<and> hoursWorked (self (setHoursWorked 8
        (new_HourlyMilestone ''Test Milestone'' ''Testing exceptions'' (Some (Direct 0)) (50::real))))
       = 8"
  using setHoursWorked_fails_iff_negative
      [of "- 5" "new_HourlyMilestone ''Test Milestone'' ''Testing exceptions'' (Some (Direct 0)) (50::real)"]
    setHoursWorked_fails_iff_negative
      [of 8 "new_HourlyMilestone ''Test Milestone'' ''Testing exceptions'' (Some (Direct 0)) (50::real)"]
  by (simp add: new_HourlyMilestone_def)

text \<open>
  C5. For every fixed-price milestone constructed with amount \<open>A > 0\<close>,
  \<^verbatim>\<open>calculatePayment()\<close> returns \<open>0\<close> before \<^verbatim>\<open>complete()\<close> and \<open>A\<close> after it; and for every
  fixed-price milestone, in any state, \<^verbatim>\<open>complete()\<close> does not fail and leaves the milestone
  completed.
\<close>

theorem FixedPriceMilestone_payment_before_and_after:
  fixes A :: "'d::{zero,ord}" and m :: "'d FixedPriceMilestone"
  shows "(0 < A \<longrightarrow>
            retval (FixedPriceMilestone_calculatePayment
                      (new_FixedPriceMilestone ttl desc pay A)) = 0
          \<and> retval (FixedPriceMilestone_calculatePayment
                      (self (FixedPriceMilestone_complete
                         (new_FixedPriceMilestone ttl desc pay A)))) = A)
       \<and> signal (FixedPriceMilestone_complete m) = Normal
       \<and> isCompleted (self (FixedPriceMilestone_complete m))"
  by (simp add: new_FixedPriceMilestone_def milestone_defs Let_def)

theorem FixedPriceMilestone_payment_before_and_after_witness:
  "(0::real) < 2500
   \<and> retval (FixedPriceMilestone_calculatePayment
        (new_FixedPriceMilestone ''Website'' ''Full stack'' (Some (Escrow 2500)) (2500::real))) = 0
   \<and> retval (FixedPriceMilestone_calculatePayment
        (self (FixedPriceMilestone_complete
           (new_FixedPriceMilestone ''Website'' ''Full stack'' (Some (Escrow 2500)) (2500::real)))))
       = 2500"
  using FixedPriceMilestone_payment_before_and_after
      [of "2500::real" "''Website''" "''Full stack''" "Some (Escrow 2500)"]
  by simp

text \<open>
  C6. For a milestone of either class, reached through the base pointer or directly,
  \<^verbatim>\<open>calculatePayment()\<close> returns \<open>0\<close> whenever the milestone is not completed, and it is a
  pure query: the object after the call is the object before it (title, description,
  completed flag, payment, amount, hours and rate), and nothing is printed.
\<close>

theorem calculatePayment_zero_until_completed_and_pure:
  fixes ms :: "('d::{zero,times}) MilestoneObj"
    and fm :: "'d FixedPriceMilestone" and hm :: "'d HourlyMilestone"
  shows "(\<not> getIsCompletedObj ms \<longrightarrow> retval (calculatePayment ms) = 0)
       \<and> self (calculatePayment ms) = ms
       \<and> events (calculatePayment ms) = []
       \<and> signal (calculatePayment ms) = Normal
       \<and> (\<not> isCompleted fm \<longrightarrow> retval (FixedPriceMilestone_calculatePayment fm) = 0)
       \<and> self (FixedPriceMilestone_calculatePayment fm) = fm
       \<and> events (FixedPriceMilestone_calculatePayment fm) = []
       \<and> (\<not> isCompleted hm \<longrightarrow> retval (HourlyMilestone_calculatePayment hm) = 0)
       \<and> self (HourlyMilestone_calculatePayment hm) = hm
       \<and> events (HourlyMilestone_calculatePayment hm) = []"
  by (cases ms) (simp_all add: milestone_defs getIsCompleted_def)

theorem calculatePayment_zero_until_completed_and_pure_witness:
  "\<not> getIsCompletedObj (Hourly ((new_HourlyMilestone ''Test Milestone'' ''Testing exceptions''
        (Some (Direct 0)) (50::real))\<lparr>hoursWorked := 10\<rparr>))
   \<and> retval (calculatePayment (Hourly ((new_HourlyMilestone ''Test Milestone''
        ''Testing exceptions'' (Some (Direct 0)) (50::real))\<lparr>hoursWorked := 10\<rparr>))) = 0
   \<and> \<not> isCompleted (new_FixedPriceMilestone ''Website'' ''Full stack''
        (Some (Escrow 2500)) (2500::real))
   \<and> retval (FixedPriceMilestone_calculatePayment (new_FixedPriceMilestone ''Website''
        ''Full stack'' (Some (Escrow 2500)) (2500::real))) = 0"
  using calculatePayment_zero_until_completed_and_pure
      [of "Hourly ((new_HourlyMilestone ''Test Milestone'' ''Testing exceptions''
             (Some (Direct 0)) (50::real))\<lparr>hoursWorked := 10\<rparr>)"
          "new_FixedPriceMilestone ''Website'' ''Full stack'' (Some (Escrow 2500)) (2500::real)"]
  by (simp add: new_HourlyMilestone_def new_FixedPriceMilestone_def getIsCompleted_def)

text \<open>
  C7. For every hourly milestone with rate \<open>r\<close> and every \<open>h > 0\<close>: setting the hours to \<open>h\<close>
  succeeds, the following \<^verbatim>\<open>complete()\<close> succeeds, and \<^verbatim>\<open>calculatePayment()\<close> then returns
  the product \<open>h * r\<close>, as the multiplication of the number type computes it. The numbers
  are any type whose \<open>\<le>\<close> is a preorder; nothing is assumed of \<open>*\<close>.
\<close>

theorem HourlyMilestone_payment_is_hours_times_rate:
  fixes m :: "('d::{zero,preorder,times}) HourlyMilestone"
  assumes "hourlyRate m = r" and "0 < h"
  shows "signal (setHoursWorked h m) = Normal
       \<and> signal (HourlyMilestone_complete (self (setHoursWorked h m))) = Normal
       \<and> retval (HourlyMilestone_calculatePayment
            (self (HourlyMilestone_complete (self (setHoursWorked h m))))) = h * r"
proof -
  have "\<not> h < 0" "\<not> h \<le> 0"
    using assms(2) by (simp_all add: less_le_not_le)
  then show ?thesis
    using assms(1) by (simp add: setHoursWorked_def milestone_defs Let_def)
qed

theorem HourlyMilestone_payment_is_hours_times_rate_witness:
  "hourlyRate (new_HourlyMilestone ''Test Milestone'' ''Testing exceptions''
        (Some (Direct 0)) (50::real)) = 50
   \<and> (0::real) < 10
   \<and> signal (HourlyMilestone_complete (self (setHoursWorked 10
        (new_HourlyMilestone ''Test Milestone'' ''Testing exceptions''
           (Some (Direct 0)) (50::real))))) = Normal
   \<and> retval (HourlyMilestone_calculatePayment (self (HourlyMilestone_complete
        (self (setHoursWorked 10 (new_HourlyMilestone ''Test Milestone''
           ''Testing exceptions'' (Some (Direct 0)) (50::real))))))) = 500"
proof -
  have r: "hourlyRate (new_HourlyMilestone ''Test Milestone'' ''Testing exceptions''
        (Some (Direct 0)) (50::real)) = 50"
    by (simp add: new_HourlyMilestone_def)
  have h: "(0::real) < 10"
    by simp
  show ?thesis
    using r h HourlyMilestone_payment_is_hours_times_rate [OF r h]
    by simp
qed

text \<open>
  C8. Calling \<^verbatim>\<open>complete()\<close> on a fixed-price milestone that is already completed and has
  the amount \<open>A\<close> is accepted (it does not fail) and changes neither the milestone nor the
  result of \<^verbatim>\<open>calculatePayment()\<close>, which is \<open>A\<close> before and after.
\<close>

theorem FixedPriceMilestone_complete_twice:
  fixes m :: "('d::zero) FixedPriceMilestone"
  assumes "isCompleted m" and "fixedAmount m = A"
  shows "signal (FixedPriceMilestone_complete m) = Normal
       \<and> retval (FixedPriceMilestone_calculatePayment m) = A
       \<and> retval (FixedPriceMilestone_calculatePayment (self (FixedPriceMilestone_complete m))) = A
       \<and> self (FixedPriceMilestone_complete m) = m"
  using assms by (simp add: milestone_defs Let_def)

theorem FixedPriceMilestone_complete_twice_witness:
  "isCompleted (self (FixedPriceMilestone_complete
     (new_FixedPriceMilestone ''Website'' ''Full stack'' (Some (Escrow 2500)) (2500::real))))
   \<and> fixedAmount (self (FixedPriceMilestone_complete
     (new_FixedPriceMilestone ''Website'' ''Full stack'' (Some (Escrow 2500)) (2500::real))))
       = 2500
   \<and> signal (FixedPriceMilestone_complete (self (FixedPriceMilestone_complete
     (new_FixedPriceMilestone ''Website'' ''Full stack'' (Some (Escrow 2500)) (2500::real)))))
       = Normal
   \<and> retval (FixedPriceMilestone_calculatePayment (self (FixedPriceMilestone_complete
       (self (FixedPriceMilestone_complete
     (new_FixedPriceMilestone ''Website'' ''Full stack'' (Some (Escrow 2500)) (2500::real)))))))
       = 2500"
proof -
  have c: "isCompleted (self (FixedPriceMilestone_complete
     (new_FixedPriceMilestone ''Website'' ''Full stack'' (Some (Escrow 2500)) (2500::real))))"
    by (simp add: new_FixedPriceMilestone_def milestone_defs Let_def)
  have a: "fixedAmount (self (FixedPriceMilestone_complete
     (new_FixedPriceMilestone ''Website'' ''Full stack'' (Some (Escrow 2500)) (2500::real))))
       = 2500"
    by (simp add: new_FixedPriceMilestone_def milestone_defs Let_def)
  show ?thesis
    using c a FixedPriceMilestone_complete_twice [OF c a]
    by simp
qed

subsection \<open>The workflow\<close>

text \<open>
  C1. In \<^verbatim>\<open>executeProjectWorkflow()\<close>, if the client, the freelancer or the milestone is
  absent, or if \<^verbatim>\<open>calculatePayment()\<close> after the completion of the milestone returns a value
  \<open>\<le> 0\<close>, then neither \<^verbatim>\<open>processPayment()\<close> of the payment method nor
  \<^verbatim>\<open>logPaymentReceipt()\<close> of the logger is entered during the run.
\<close>

theorem workflow_no_payment_no_log:
  fixes p :: "('d::{zero,ord,times}) Project"
  assumes "client p = None \<or> freelancer p = None \<or> milestone p = None \<or>
    (\<exists>ms. milestone p = Some ms \<and> retval (calculatePayment (self (complete ms))) \<le> 0)"
  shows "Call ProcessPayment \<notin> set (events (executeProjectWorkflow can_open p)) \<and>
         Call LogPaymentReceipt \<notin> set (events (executeProjectWorkflow can_open p))"
  using not_reaches_payment [OF assms]
  by (simp add: executeProjectWorkflow_calls workflow_try_processPayment
      workflow_try_logPaymentReceipt)

theorem workflow_no_payment_no_log_witness:
  "retval (calculatePayment (self (complete
     (Fixed (new_FixedPriceMilestone ''Website'' ''Full stack'' (Some (Escrow 0)) (0::real)))))) \<le> 0
   \<and> Call ProcessPayment \<notin>
       set (events (executeProjectWorkflow every_file_opens (fixed_project 0 (Some demo_logger))))
   \<and> Call LogPaymentReceipt \<notin>
       set (events (executeProjectWorkflow every_file_opens (fixed_project 0 (Some demo_logger))))
   \<and> client ((fixed_project 2500 (Some demo_logger))\<lparr>client := None\<rparr>) = None
   \<and> Call ProcessPayment \<notin> set (events (executeProjectWorkflow every_file_opens
         ((fixed_project 2500 (Some demo_logger))\<lparr>client := None\<rparr>)))
   \<and> Call LogPaymentReceipt \<notin> set (events (executeProjectWorkflow every_file_opens
         ((fixed_project 2500 (Some demo_logger))\<lparr>client := None\<rparr>)))"
proof -
  have z: "retval (calculatePayment (self (complete
     (Fixed (new_FixedPriceMilestone ''Website'' ''Full stack'' (Some (Escrow 0)) (0::real)))))) \<le> 0"
    by (simp add: new_FixedPriceMilestone_def milestone_defs Let_def)
  have h1: "client (fixed_project 0 (Some demo_logger)) = None \<or>
      freelancer (fixed_project 0 (Some demo_logger)) = None \<or>
      milestone (fixed_project 0 (Some demo_logger)) = None \<or>
      (\<exists>ms. milestone (fixed_project 0 (Some demo_logger)) = Some ms \<and>
         retval (calculatePayment (self (complete ms))) \<le> 0)"
    using z by (simp add: fixed_project_def)
  have h2: "client ((fixed_project 2500 (Some demo_logger))\<lparr>client := None\<rparr>) = None"
    by simp
  show ?thesis
    using z h2 workflow_no_payment_no_log [OF h1, of every_file_opens]
      workflow_no_payment_no_log [OF disjI1, OF h2, of every_file_opens]
    by simp
qed

text \<open>Each of the four failures does occur, and is caught.\<close>

lemma run_NPE: "signal (workflow_try every_file_opens
    ((fixed_project 2500 (Some demo_logger))\<lparr>milestone := None\<rparr>)) = Throw NullPointerException"
  by (simp add: workflow_try_absent)

lemma run_IHE: "signal (workflow_try every_file_opens (hourly_project 0 (Direct 0)))
    = Throw InvalidHoursException"
  by (simp add: demo_defs run_defs)

lemma run_PFE: "signal (workflow_try every_file_opens (fixed_project 0 (Some demo_logger)))
    = Throw PaymentFailureException"
  by (simp add: demo_defs run_defs)

lemma run_file: "signal (workflow_try no_file_opens (fixed_project 2500 (Some demo_logger)))
    = Throw (runtime_error ''Unable to open log file'')"
  by (simp add: demo_defs run_defs)

lemma workflow_try_throws:
  fixes p :: "('d::{zero,ord,times}) Project"
  assumes "signal (workflow_try can_open p) = Throw e"
  shows "e = InvalidHoursException \<or> e = NullPointerException \<or>
         e = PaymentFailureException \<or> e = runtime_error ''Unable to open log file''"
proof (cases "client p = None \<or> freelancer p = None \<or> milestone p = None")
  case True
  then show ?thesis
    using assms by (simp add: workflow_try_absent)
next
  case False
  then obtain c f ms where "client p = Some c" "freelancer p = Some f" "milestone p = Some ms"
    by auto
  then show ?thesis
    using assms complete_signal [of ms]
    by (auto simp: workflow_try_signal split: if_splits option.splits)
qed

text \<open>
  C2. For every project (any of the references absent or present, a fixed-price or an
  hourly milestone, any hours and amounts) and every file system,
  \<^verbatim>\<open>executeProjectWorkflow()\<close> never ends by throwing to its caller. Whatever the \<^verbatim>\<open>try\<close>
  block throws is one of the four failures (InvalidHoursException, NullPointerException,
  PaymentFailureException, the logger's file error); the handler catches it, the run returns
  normally, and exactly one line, naming the failure, is written to \<^verbatim>\<open>cerr\<close>, after all the
  other output. When nothing is thrown, nothing is written to \<^verbatim>\<open>cerr\<close>. (A run that calls
  through a null logger or payment method throws nothing: it has no defined behaviour.)
\<close>

theorem workflow_catches_every_failure:
  fixes p :: "('d::{zero,ord,times}) Project"
  shows "(\<forall>e. signal (executeProjectWorkflow can_open p) \<noteq> Throw e)
       \<and> (\<forall>e. signal (workflow_try can_open p) = Throw e \<longrightarrow>
              (e = InvalidHoursException \<or> e = NullPointerException \<or>
               e = PaymentFailureException \<or> e = runtime_error ''Unable to open log file'')
            \<and> signal (executeProjectWorkflow can_open p) = Normal
            \<and> events (executeProjectWorkflow can_open p) =
                events (workflow_try can_open p) @
                [Cerr [Str ''Error during execution: '', Str (what e)]]
            \<and> cerr_lines (events (executeProjectWorkflow can_open p)) =
                [[Str ''Error during execution: '', Str (what e)]])
       \<and> ((\<forall>e. signal (workflow_try can_open p) \<noteq> Throw e) \<longrightarrow>
            cerr_lines (events (executeProjectWorkflow can_open p)) = [])"
proof -
  have caught: "signal (executeProjectWorkflow can_open p) = Normal"
    if "signal (workflow_try can_open p) = Throw e" for e
    using that by (cases e) (simp_all add: executeProjectWorkflow_def Let_def)
  have kept: "signal (executeProjectWorkflow can_open p) = signal (workflow_try can_open p)"
    if "\<forall>e. signal (workflow_try can_open p) \<noteq> Throw e"
    using that
    by (cases "signal (workflow_try can_open p)") (simp_all add: executeProjectWorkflow_def Let_def)
  have never: "signal (executeProjectWorkflow can_open p) \<noteq> Throw e" for e
  proof (cases "\<exists>e'. signal (workflow_try can_open p) = Throw e'")
    case True
    then show ?thesis using caught by auto
  next
    case False
    then show ?thesis using kept by simp
  qed
  have reported: "cerr_lines (events (executeProjectWorkflow can_open p)) =
      [[Str ''Error during execution: '', Str (what e)]]"
    if "signal (workflow_try can_open p) = Throw e" for e
    using that by (simp add: executeProjectWorkflow_events cerr_lines_append workflow_try_cerr)
  have silent: "cerr_lines (events (executeProjectWorkflow can_open p)) = []"
    if "\<forall>e. signal (workflow_try can_open p) \<noteq> Throw e"
    using that
    by (cases "signal (workflow_try can_open p)")
       (simp_all add: executeProjectWorkflow_events cerr_lines_append workflow_try_cerr)
  show ?thesis
    using never caught reported silent workflow_try_throws [of can_open p]
    by (simp add: executeProjectWorkflow_events)
qed

theorem workflow_catches_every_failure_witness:
  "signal (workflow_try every_file_opens
      ((fixed_project 2500 (Some demo_logger))\<lparr>milestone := None\<rparr>)) = Throw NullPointerException
   \<and> signal (executeProjectWorkflow every_file_opens
      ((fixed_project 2500 (Some demo_logger))\<lparr>milestone := None\<rparr>)) = Normal
   \<and> cerr_lines (events (executeProjectWorkflow every_file_opens
      ((fixed_project 2500 (Some demo_logger))\<lparr>milestone := None\<rparr>))) =
       [[Str ''Error during execution: '', Str ''Null pointer access attempted'']]
   \<and> signal (workflow_try every_file_opens (hourly_project 0 (Direct 0)))
       = Throw InvalidHoursException
   \<and> signal (executeProjectWorkflow every_file_opens (hourly_project 0 (Direct 0))) = Normal
   \<and> cerr_lines (events (executeProjectWorkflow every_file_opens (hourly_project 0 (Direct 0)))) =
       [[Str ''Error during execution: '',
         Str ''Invalid hours worked: cannot be negative or zero'']]
   \<and> signal (workflow_try every_file_opens (fixed_project 0 (Some demo_logger)))
       = Throw PaymentFailureException
   \<and> signal (executeProjectWorkflow every_file_opens (fixed_project 0 (Some demo_logger)))
       = Normal
   \<and> cerr_lines (events (executeProjectWorkflow every_file_opens
        (fixed_project 0 (Some demo_logger)))) =
       [[Str ''Error during execution: '',
         Str ''Payment processing failed: amount is zero or negative'']]
   \<and> signal (workflow_try no_file_opens (fixed_project 2500 (Some demo_logger)))
       = Throw (runtime_error ''Unable to open log file'')
   \<and> signal (executeProjectWorkflow no_file_opens (fixed_project 2500 (Some demo_logger)))
       = Normal
   \<and> cerr_lines (events (executeProjectWorkflow no_file_opens
        (fixed_project 2500 (Some demo_logger)))) =
       [[Str ''Error during execution: '', Str ''Unable to open log file'']]"
proof -
  note t = workflow_catches_every_failure [THEN conjunct2, THEN conjunct1, rule_format]
  show ?thesis
    using run_NPE run_IHE run_PFE run_file
      t [OF run_NPE] t [OF run_IHE] t [OF run_PFE] t [OF run_file]
    by (simp add: cerr_lines_append workflow_try_cerr)
qed


lemma executeProjectWorkflow_signal:
  "signal (executeProjectWorkflow can_open p) =
     (case signal (workflow_try can_open p) of Throw e \<Rightarrow> Normal | s \<Rightarrow> s)"
proof (cases "signal (workflow_try can_open p)")
  case (Throw e)
  then show ?thesis
    by (cases e) (simp_all add: executeProjectWorkflow_def Let_def)
qed (simp_all add: executeProjectWorkflow_def Let_def)

text \<open>
  C9, as stated, fails: with client, freelancer and milestone present and the logger absent,
  a fixed-price milestone of amount \<open>0\<close> makes the run end with the caught
  PaymentFailureException; \<^verbatim>\<open>processPayment()\<close> is not entered and the logger is never
  dereferenced.
\<close>

theorem absent_logger_not_reached_counterexample:
  "client (fixed_project 0 None) \<noteq> None
   \<and> freelancer (fixed_project 0 None) \<noteq> None
   \<and> milestone (fixed_project 0 None) \<noteq> None
   \<and> logger (fixed_project 0 None) = None
   \<and> signal (executeProjectWorkflow every_file_opens (fixed_project 0 None)) = Normal
   \<and> signal (executeProjectWorkflow every_file_opens (fixed_project 0 None))
       \<noteq> Undefined Null_logger
   \<and> cerr_lines (events (executeProjectWorkflow every_file_opens (fixed_project 0 None))) =
       [[Str ''Error during execution: '',
         Str ''Payment processing failed: amount is zero or negative'']]
   \<and> Call ProcessPayment \<notin>
       set (events (executeProjectWorkflow every_file_opens (fixed_project 0 None)))"
  by (simp add: demo_defs run_defs)


text \<open>
  C9, amended. The check at the head of \<^verbatim>\<open>executeProjectWorkflow()\<close> covers the client, the
  freelancer and the milestone, not the logger: in every state where these three are present
  and the logger is absent, NullPointerException is not thrown; and the run goes all the way
  to the call through the absent logger exactly when the milestone has a payment method,
  \<^verbatim>\<open>complete()\<close> succeeds and the calculated payment is not \<open>\<le> 0\<close>. Then \<^verbatim>\<open>processPayment()\<close>
  has been entered and \<^verbatim>\<open>logPaymentReceipt()\<close> has not.
\<close>

theorem absent_logger_passes_the_check:
  fixes p :: "('d::{zero,ord,times}) Project"
  assumes "client p = Some c" and "freelancer p = Some f" and "milestone p = Some ms"
    and "logger p = None"
  shows "signal (workflow_try can_open p) \<noteq> Throw NullPointerException
       \<and> (signal (executeProjectWorkflow can_open p) = Undefined Null_logger \<longleftrightarrow>
            paymentMethodObj ms \<noteq> None \<and> signal (complete ms) = Normal \<and>
            \<not> retval (calculatePayment (self (complete ms))) \<le> 0)
       \<and> (signal (executeProjectWorkflow can_open p) = Undefined Null_logger \<longrightarrow>
            Call ProcessPayment \<in> set (events (executeProjectWorkflow can_open p)) \<and>
            Call LogPaymentReceipt \<notin> set (events (executeProjectWorkflow can_open p)))"
proof -
  have sig: "signal (workflow_try can_open p) =
      (if paymentMethodObj ms = None then Undefined Null_paymentMethod
       else if signal (complete ms) \<noteq> Normal then signal (complete ms)
       else if retval (calculatePayment (self (complete ms))) \<le> 0
         then Throw PaymentFailureException
       else Undefined Null_logger)"
    using assms by (simp add: workflow_try_signal)
  have reach: "reaches_payment p =
      (paymentMethodObj ms \<noteq> None \<and> signal (complete ms) = Normal \<and>
       \<not> retval (calculatePayment (self (complete ms))) \<le> 0)"
    using assms by (simp add: reaches_payment_def)
  have no_npe: "signal (workflow_try can_open p) \<noteq> Throw NullPointerException"
    using complete_signal [of ms] by (auto simp: sig)
  have iff: "signal (executeProjectWorkflow can_open p) = Undefined Null_logger \<longleftrightarrow>
      paymentMethodObj ms \<noteq> None \<and> signal (complete ms) = Normal \<and>
      \<not> retval (calculatePayment (self (complete ms))) \<le> 0"
    using complete_signal [of ms] by (auto simp: executeProjectWorkflow_signal sig)
  show ?thesis
    using no_npe iff assms(4)
    by (simp add: executeProjectWorkflow_calls workflow_try_processPayment
        workflow_try_logPaymentReceipt reach)
qed

theorem absent_logger_passes_the_check_witness:
  "logger (fixed_project 2500 None) = None
   \<and> signal (workflow_try every_file_opens (fixed_project 2500 None)) \<noteq> Throw NullPointerException
   \<and> signal (executeProjectWorkflow every_file_opens (fixed_project 2500 None))
       = Undefined Null_logger
   \<and> Call ProcessPayment \<in>
       set (events (executeProjectWorkflow every_file_opens (fixed_project 2500 None)))
   \<and> Call LogPaymentReceipt \<notin>
       set (events (executeProjectWorkflow every_file_opens (fixed_project 2500 None)))"
proof -
  have l: "logger (fixed_project 2500 None) = None"
    by (simp add: fixed_project_def)
  have s: "signal (executeProjectWorkflow every_file_opens (fixed_project 2500 None))
       = Undefined Null_logger"
    by (simp add: demo_defs run_defs)
  show ?thesis
    using l s absent_logger_passes_the_check [OF _ _ _ l, of _ _ _ every_file_opens]
    by (simp add: fixed_project_def)
qed













end
